theory Spec2Isabelle
  imports Complex_Main
begin

section \<open>Python values, exceptions and effects\<close>

text \<open>
  The module \<^verbatim>\<open>vision_agent/lmm/lmm.py\<close> is glue between a caller and two remote model
  services. Its functions read a file, talk to the network, write to a logger and raise.
  Each of them is modelled as a function that returns the list of effects it performed,
  in order, together with either the exception it raised or the value it returned.

  A value produced by \<^verbatim>\<open>json.loads\<close> or \<^verbatim>\<open>Response.json()\<close> is a \<open>json\<close>. A finite
  float is given by the number it denotes; the decoder also accepts \<^verbatim>\<open>NaN\<close>, \<^verbatim>\<open>Infinity\<close>
  and \<^verbatim>\<open>-Infinity\<close>. A Python \<^verbatim>\<open>dict\<close> is the list of its items; a key is looked up with
  \<open>map_of\<close>.
\<close>

datatype pyfloat = Finite real | NaN | Infinity | NegInfinity

datatype json =
    JNull
  | JBool bool
  | JInt int
  | JFloat pyfloat
  | JStr string
  | JArr "json list"
  | JObj "(string \<times> json) list"

type_synonym dict = "(string \<times> json) list"

text \<open>
  The text of an exception or of a log line. The f-string \<^verbatim>\<open>f"Request failed: {resp_json}"\<close>
  interpolates the \<^verbatim>\<open>repr\<close> of a dictionary: \<open>MsgRepr p d\<close> is the prefix \<open>p\<close> followed by the
  rendering of \<open>d\<close>. Every other message of the module is a plain string.
\<close>

datatype message = Msg string | MsgRepr string dict

text \<open>
  The exceptions the module raises itself (\<open>ValueError\<close>, \<open>NotImplementedError\<close>), the ones
  Python raises for it (\<open>KeyError\<close>, \<open>IndexError\<close>, \<open>TypeError\<close>, \<open>AttributeError\<close>, and
  \<open>OSError\<close> from \<^verbatim>\<open>open\<close>), and \<open>TransportError\<close> for whatever the HTTP library or the
  completion client raises.
\<close>

datatype exn =
    ValueError message
  | NotImplementedError string
  | KeyError string
  | IndexError
  | TypeError
  | AttributeError
  | OSError string
  | TransportError string

text \<open>An image argument is \<^verbatim>\<open>Union[str, Path]\<close>.\<close>

datatype image = StrPath string | PathObj string

fun path_of :: "image \<Rightarrow> string" where
  "path_of (StrPath s) = s"
| "path_of (PathObj p) = p"

text \<open>
  \<^verbatim>\<open>if image:\<close> on an \<^verbatim>\<open>Optional[Union[str, Path]]\<close>: \<^verbatim>\<open>None\<close> and the empty string are
  false, every \<^verbatim>\<open>Path\<close> object is true. The result is the image the branch then works on.
\<close>

fun if_image :: "image option \<Rightarrow> image option" where
  "if_image None = None"
| "if_image (Some (StrPath s)) = (if s = [] then None else Some (StrPath s))"
| "if_image (Some (PathObj p)) = Some (PathObj p)"

text \<open>The content blocks and messages of the completion API's wire format.\<close>

datatype block = TextBlock string | ImageUrlBlock (url: string) (detail: string)

datatype content = Plain string | Blocks "block list"

record fixed_message =
  role :: string
  content :: content

record completion_request =
  model :: string
  messages :: "fixed_message list"
  max_tokens_arg :: "int option"
  extra :: dict

record post_request =
  post_url :: string
  headers :: "(string \<times> string) list"
  json_body :: dict

datatype event =
    LogError message
  | HttpPost post_request
  | ChatCompletion completion_request

type_synonym 'a outcome = "event list \<times> (exn + 'a)"

text \<open>The downstream vision tools imported from \<^verbatim>\<open>vision_agent.tools\<close>.\<close>

datatype tool = CLIP | GroundingDINO | GroundingSAM

text \<open>
  Everything the module takes from outside itself: the file system (\<open>open_read p\<close> is the
  content of the file at \<open>p\<close>, \<open>None\<close> when \<^verbatim>\<open>open\<close> fails), \<^verbatim>\<open>base64.b64encode\<close>,
  \<^verbatim>\<open>Path(p).suffix\<close>, \<^verbatim>\<open>str.lower\<close>, \<^verbatim>\<open>json.loads\<close> (\<open>None\<close> for a \<^verbatim>\<open>JSONDecodeError\<close>),
  \<^verbatim>\<open>requests.post(...).json()\<close>, the completion call \<^verbatim>\<open>client.chat.completions.create(...)\<close>,
  and the constants of \<^verbatim>\<open>vision_agent.tools\<close>: the template
  \<^verbatim>\<open>CHOOSE_PARAMS.format(api_doc=..., question=...)\<close>, \<^verbatim>\<open>SYSTEM_PROMPT\<close>, and each tool's
  \<^verbatim>\<open>description\<close> and \<^verbatim>\<open>str(usage)\<close>. The two network calls answer with \<open>Inl\<close> when the
  library raises: a transport failure, a body that is not JSON. A completion is the list
  of its choices, each given by its \<^verbatim>\<open>message.content\<close>, which the code casts to \<^verbatim>\<open>str\<close>;
  taking the first of them is the module's own step.
\<close>

record env =
  open_read :: "string \<Rightarrow> string option"
  b64encode :: "string \<Rightarrow> string"
  path_suffix :: "string \<Rightarrow> string"
  str_lower :: "string \<Rightarrow> string"
  json_loads :: "string \<Rightarrow> json option"
  requests_post :: "post_request \<Rightarrow> string + dict"
  chat_completions_create :: "completion_request \<Rightarrow> string + string list"
  CHOOSE_PARAMS_format :: "string \<Rightarrow> string \<Rightarrow> string"
  SYSTEM_PROMPT :: string
  description :: "tool \<Rightarrow> string"
  usage_str :: "tool \<Rightarrow> string"

section \<open>The image encoder\<close>

definition encode_image :: "env \<Rightarrow> image \<Rightarrow> exn + string" where
  "encode_image E im =
     (case open_read E (path_of im) of
        None \<Rightarrow> Inl (OSError (path_of im))
      | Some bytes \<Rightarrow> Inr (b64encode E bytes))"

section \<open>The hosted-endpoint client\<close>

record LLaVALMM =
  llava_model_name :: string

definition LLAVA_ENDPOINT :: string where
  "LLAVA_ENDPOINT = ''https://svtswgdnleslqcsjvilau4p6u40jwrkn.lambda-url.us-east-2.on.aws''"

definition LLaVALMM_init :: "string \<Rightarrow> LLaVALMM" where
  "LLaVALMM_init name = \<lparr>llava_model_name = name\<rparr>"

text \<open>The defaults of \<^verbatim>\<open>generate\<close>: \<^verbatim>\<open>temperature=0.1\<close> and \<^verbatim>\<open>max_new_tokens=1500\<close>. The
  float \<^verbatim>\<open>0.1\<close> is the double nearest to one tenth, \<open>3602879701896397 / 2 ^ 55\<close>.\<close>

definition default_temperature :: pyfloat where
  "default_temperature = Finite (3602879701896397 / 36028797018963968)"

definition default_max_new_tokens :: int where
  "default_max_new_tokens = 1500"

text \<open>Python's \<^verbatim>\<open>v == k\<close> for a decoded JSON value and an integer: numbers compare by value
  (no non-finite float equals an integer), \<^verbatim>\<open>True\<close> is 1 and \<^verbatim>\<open>False\<close> is 0, and nothing else
  equals an integer.\<close>

fun py_eq_int :: "json \<Rightarrow> int \<Rightarrow> bool" where
  "py_eq_int (JInt n) k = (n = k)"
| "py_eq_int (JFloat (Finite r)) k = (r = of_int k)"
| "py_eq_int (JFloat NaN) k = False"
| "py_eq_int (JFloat Infinity) k = False"
| "py_eq_int (JFloat NegInfinity) k = False"
| "py_eq_int (JBool b) k = ((if b then 1 else 0) = k)"
| "py_eq_int JNull k = False"
| "py_eq_int (JStr s) k = False"
| "py_eq_int (JArr xs) k = False"
| "py_eq_int (JObj d) k = False"

text \<open>
  The test \<^verbatim>\<open>("statusCode" in resp_json and resp_json["statusCode"] != 200) or
  "statusCode" not in resp_json\<close>: the second case of the lookup is the key that is absent,
  the first the key that is present.
\<close>

definition request_failed :: "dict \<Rightarrow> bool" where
  "request_failed resp_json =
     (case map_of resp_json ''statusCode'' of
        Some v \<Rightarrow> \<not> py_eq_int v 200
      | None \<Rightarrow> True)"

text \<open>The request body: \<^verbatim>\<open>image\<close> is set only under \<^verbatim>\<open>if image:\<close>.\<close>

definition llava_data :: "string \<Rightarrow> string option \<Rightarrow> pyfloat \<Rightarrow> int \<Rightarrow> dict" where
  "llava_data prompt encoded temperature max_new_tokens =
     [(''prompt'', JStr prompt)]
     @ (case encoded of None \<Rightarrow> [] | Some e \<Rightarrow> [(''image'', JStr e)])
     @ [(''temperature'', JFloat temperature), (''max_new_tokens'', JInt max_new_tokens)]"

text \<open>The request that \<^verbatim>\<open>generate\<close> posts; encoding the image is what can fail before it.\<close>

definition llava_request ::
  "env \<Rightarrow> string \<Rightarrow> image option \<Rightarrow> pyfloat \<Rightarrow> int \<Rightarrow> exn + post_request" where
  "llava_request E prompt img temperature max_new_tokens =
     (case (case if_image img of
              None \<Rightarrow> Inr None
            | Some im \<Rightarrow>
                (case encode_image E im of Inl e \<Rightarrow> Inl e | Inr encoded \<Rightarrow> Inr (Some encoded)))
      of Inl e \<Rightarrow> Inl e
       | Inr encoded \<Rightarrow>
           Inr \<lparr>post_url = LLAVA_ENDPOINT,
                headers = [(''Content-Type'', ''application/json'')],
                json_body = llava_data prompt encoded temperature max_new_tokens\<rparr>)"

definition LLaVALMM_generate ::
  "env \<Rightarrow> LLaVALMM \<Rightarrow> string \<Rightarrow> image option \<Rightarrow> pyfloat \<Rightarrow> int \<Rightarrow> json outcome" where
  "LLaVALMM_generate E self prompt img temperature max_new_tokens =
     (case llava_request E prompt img temperature max_new_tokens of
        Inl e \<Rightarrow> ([], Inl e)
      | Inr req \<Rightarrow>
          (case requests_post E req of
             Inl x \<Rightarrow> ([HttpPost req], Inl (TransportError x))
           | Inr resp_json \<Rightarrow>
               if request_failed resp_json
               then ([HttpPost req, LogError (MsgRepr ''Request failed: '' resp_json)],
                     Inl (ValueError (MsgRepr ''Request failed: '' resp_json)))
               else (case map_of resp_json ''data'' of
                       None \<Rightarrow> ([HttpPost req], Inl (KeyError ''data''))
                     | Some d \<Rightarrow> ([HttpPost req], Inr d))))"

definition LLaVALMM_chat ::
  "LLaVALMM \<Rightarrow> (string \<times> string) list list \<Rightarrow> image option \<Rightarrow> 'a outcome" where
  "LLaVALMM_chat self chat img = ([], Inl (NotImplementedError ''Chat not supported for LLaVA''))"

text \<open>The argument of the unified call is \<^verbatim>\<open>Union[str, List[Dict[str, str]]]\<close>.\<close>

datatype lmm_input = InStr string | InChat "(string \<times> string) list list"

definition LLaVALMM_call :: "env \<Rightarrow> LLaVALMM \<Rightarrow> lmm_input \<Rightarrow> image option \<Rightarrow> json outcome" where
  "LLaVALMM_call E self input img =
     (case input of
        InStr s \<Rightarrow> LLaVALMM_generate E self s img default_temperature default_max_new_tokens
      | InChat c \<Rightarrow> LLaVALMM_chat self c img)"

section \<open>The third-party vision-chat client\<close>

record OpenAILMM =
  model_name :: string
  max_tokens :: int
  kwargs :: dict

text \<open>The constructor: an argument that is not passed takes its default. The constructor
  also builds the API client \<^verbatim>\<open>OpenAI()\<close> from the credentials of the ambient environment;
  that client is the \<open>chat_completions_create\<close> of the environment.\<close>

definition OpenAILMM_init :: "string option \<Rightarrow> int option \<Rightarrow> dict \<Rightarrow> OpenAILMM" where
  "OpenAILMM_init name tokens kw =
     \<lparr>model_name = (case name of None \<Rightarrow> ''gpt-4-vision-preview'' | Some n \<Rightarrow> n),
      max_tokens = (case tokens of None \<Rightarrow> 1024 | Some t \<Rightarrow> t),
      kwargs = kw\<rparr>"

text \<open>\<^verbatim>\<open>response.choices[0].message.content\<close>: the subscript is unguarded and raises
  \<open>IndexError\<close> on a completion without choices.\<close>

fun first_choice :: "string list \<Rightarrow> exn + string" where
  "first_choice [] = Inl IndexError"
| "first_choice (text # others) = Inr text"

text \<open>The call \<^verbatim>\<open>create(model=..., messages=..., max_tokens=..., **self.kwargs)\<close> of
  \<^verbatim>\<open>chat\<close> and \<^verbatim>\<open>generate\<close>, and the text of its first choice.\<close>

definition create_and_return :: "env \<Rightarrow> OpenAILMM \<Rightarrow> fixed_message list \<Rightarrow> string outcome" where
  "create_and_return E self msgs =
     (let req = \<lparr>model = model_name self, messages = msgs,
                 max_tokens_arg = Some (max_tokens self), extra = kwargs self\<rparr>
      in case chat_completions_create E req of
           Inl x \<Rightarrow> ([ChatCompletion req], Inl (TransportError x))
         | Inr choices \<Rightarrow> ([ChatCompletion req], first_choice choices))"

text \<open>The loop of \<^verbatim>\<open>chat\<close> over the messages, with \<^verbatim>\<open>fixed_chat\<close> as the accumulator. A
  message is a \<^verbatim>\<open>Dict[str, str]\<close>; \<^verbatim>\<open>c["role"]\<close> is read before \<^verbatim>\<open>c["content"]\<close>.\<close>

fun fix_loop :: "fixed_message list \<Rightarrow> (string \<times> string) list list \<Rightarrow> exn + fixed_message list" where
  "fix_loop fixed_chat [] = Inr fixed_chat"
| "fix_loop fixed_chat (c # cs) =
     (case map_of c ''role'' of
        None \<Rightarrow> Inl (KeyError ''role'')
      | Some r \<Rightarrow>
          (case map_of c ''content'' of
             None \<Rightarrow> Inl (KeyError ''content'')
           | Some t \<Rightarrow> fix_loop (fixed_chat @ [\<lparr>role = r, content = Blocks [TextBlock t]\<rparr>]) cs))"

text \<open>The branch on the extension in \<^verbatim>\<open>chat\<close>.\<close>

definition chat_extension :: "env \<Rightarrow> string \<Rightarrow> exn + string" where
  "chat_extension E extension =
     (if str_lower E extension = ''.jpeg'' \<or> str_lower E extension = ''.jpg'' then Inr ''jpg''
      else if str_lower E extension = ''.png'' then Inr ''png''
      else Inl (ValueError (Msg (''Unsupported image extension: '' @ extension))))"

definition image_url_block :: "string \<Rightarrow> string \<Rightarrow> block" where
  "image_url_block extension encoded_image =
     ImageUrlBlock (''data:image/'' @ extension @ '';base64,'' @ encoded_image) ''low''"

text \<open>\<^verbatim>\<open>x.append(b)\<close> on a message content.\<close>

fun append_block :: "content \<Rightarrow> block \<Rightarrow> exn + content" where
  "append_block (Blocks bs) b = Inr (Blocks (bs @ [b]))"
| "append_block (Plain s) b = Inl AttributeError"

text \<open>\<^verbatim>\<open>fixed_chat[0]["content"].append(b)\<close>.\<close>

fun append_to_first :: "fixed_message list \<Rightarrow> block \<Rightarrow> exn + fixed_message list" where
  "append_to_first [] b = Inl IndexError"
| "append_to_first (m # ms) b =
     (case append_block (content m) b of
        Inl e \<Rightarrow> Inl e
      | Inr c \<Rightarrow> Inr (m\<lparr>content := c\<rparr> # ms))"

definition OpenAILMM_chat ::
  "env \<Rightarrow> OpenAILMM \<Rightarrow> (string \<times> string) list list \<Rightarrow> image option \<Rightarrow> string outcome" where
  "OpenAILMM_chat E self chat img =
     (case fix_loop [] chat of
        Inl e \<Rightarrow> ([], Inl e)
      | Inr fixed_chat \<Rightarrow>
          (case if_image img of
             None \<Rightarrow> create_and_return E self fixed_chat
           | Some im \<Rightarrow>
               (case chat_extension E (path_suffix E (path_of im)) of
                  Inl e \<Rightarrow> ([], Inl e)
                | Inr extension \<Rightarrow>
                    (case encode_image E im of
                       Inl e \<Rightarrow> ([], Inl e)
                     | Inr encoded_image \<Rightarrow>
                         (case append_to_first fixed_chat (image_url_block extension encoded_image) of
                            Inl e \<Rightarrow> ([], Inl e)
                          | Inr with_image \<Rightarrow> create_and_return E self with_image)))))"

definition OpenAILMM_generate ::
  "env \<Rightarrow> OpenAILMM \<Rightarrow> string \<Rightarrow> image option \<Rightarrow> string outcome" where
  "OpenAILMM_generate E self prompt img =
     (case if_image img of
        None \<Rightarrow> create_and_return E self [\<lparr>role = ''user'', content = Blocks [TextBlock prompt]\<rparr>]
      | Some im \<Rightarrow>
          (case encode_image E im of
             Inl e \<Rightarrow> ([], Inl e)
           | Inr encoded_image \<Rightarrow>
               create_and_return E self
                 [\<lparr>role = ''user'',
                   content = Blocks ([TextBlock prompt]
                     @ [image_url_block (path_suffix E (path_of im)) encoded_image])\<rparr>]))"

definition OpenAILMM_call :: "env \<Rightarrow> OpenAILMM \<Rightarrow> lmm_input \<Rightarrow> image option \<Rightarrow> string outcome" where
  "OpenAILMM_call E self input img =
     (case input of
        InStr s \<Rightarrow> OpenAILMM_generate E self s img
      | InChat c \<Rightarrow> OpenAILMM_chat E self c img)"

subsection \<open>The tool-selector factories\<close>

text \<open>Python's \<^verbatim>\<open>v[key]\<close> for a decoded JSON value and a string key: a dictionary answers
  or raises \<^verbatim>\<open>KeyError\<close>; a list, a string, a number, a boolean and \<^verbatim>\<open>None\<close> raise
  \<^verbatim>\<open>TypeError\<close>.\<close>

fun subscript :: "json \<Rightarrow> string \<Rightarrow> exn + json" where
  "subscript (JObj d) key = (case map_of d key of None \<Rightarrow> Inl (KeyError key) | Some v \<Rightarrow> Inr v)"
| "subscript JNull key = Inl TypeError"
| "subscript (JBool b) key = Inl TypeError"
| "subscript (JInt n) key = Inl TypeError"
| "subscript (JFloat r) key = Inl TypeError"
| "subscript (JStr s) key = Inl TypeError"
| "subscript (JArr xs) key = Inl TypeError"

text \<open>The returned \<^verbatim>\<open>lambda x: Tool()(**{"prompt": params["prompt"], "image": x})\<close> closes
  over the tool and over \<^verbatim>\<open>params\<close>.\<close>

datatype closure = Closure tool json

text \<open>A keyword argument of the tool call is a value taken from the model's answer or the
  argument the closure was applied to.\<close>

datatype 'x arg = Parsed json | Given 'x

record 'x tool_call =
  callee :: tool
  kw_args :: "(string \<times> 'x arg) list"

text \<open>Applying the closure: \<^verbatim>\<open>params["prompt"]\<close> is looked up now, and the tool is called with
  the dictionary \<^verbatim>\<open>{"prompt": ..., "image": x}\<close> as its keyword arguments.\<close>

fun apply_closure :: "closure \<Rightarrow> 'x \<Rightarrow> exn + 'x tool_call" where
  "apply_closure (Closure t params) x =
     (case subscript params ''prompt'' of
        Inl e \<Rightarrow> Inl e
      | Inr p \<Rightarrow> Inr \<lparr>callee = t, kw_args = [(''prompt'', Parsed p), (''image'', Given x)]\<rparr>)"

text \<open>The request of a factory: a system message and the interpolated template, with no
  \<^verbatim>\<open>max_tokens\<close> and no further options.\<close>

definition selector_request :: "env \<Rightarrow> OpenAILMM \<Rightarrow> tool \<Rightarrow> string \<Rightarrow> completion_request" where
  "selector_request E self t question =
     (let api_doc = description E t @ [CHR 0x0A] @ usage_str E t;
          prompt = CHOOSE_PARAMS_format E api_doc question
      in \<lparr>model = model_name self,
          messages = [\<lparr>role = ''system'', content = Plain (SYSTEM_PROMPT E)\<rparr>,
                      \<lparr>role = ''user'', content = Plain prompt\<rparr>],
          max_tokens_arg = None,
          extra = []\<rparr>)"

text \<open>The body the three factories share; they differ in the tool only. The handler
  \<^verbatim>\<open>except json.JSONDecodeError\<close> covers \<^verbatim>\<open>json.loads\<close>; what the subscripts
  \<^verbatim>\<open>choices[0]\<close> and \<^verbatim>\<open>["Parameters"]\<close> raise is not caught.\<close>

definition select_tool :: "env \<Rightarrow> OpenAILMM \<Rightarrow> tool \<Rightarrow> string \<Rightarrow> closure outcome" where
  "select_tool E self t question =
     (let req = selector_request E self t question
      in case chat_completions_create E req of
           Inl x \<Rightarrow> ([ChatCompletion req], Inl (TransportError x))
         | Inr choices \<Rightarrow>
             (case first_choice choices of
                Inl e \<Rightarrow> ([ChatCompletion req], Inl e)
              | Inr text \<Rightarrow>
                  (case json_loads E text of
                     None \<Rightarrow>
                       ([ChatCompletion req,
                         LogError (Msg (''Failed to decode response: '' @ text))],
                        Inl (ValueError (Msg ''Failed to decode response'')))
                   | Some decoded \<Rightarrow>
                       (case subscript decoded ''Parameters'' of
                          Inl e \<Rightarrow> ([ChatCompletion req], Inl e)
                        | Inr params \<Rightarrow> ([ChatCompletion req], Inr (Closure t params))))))"

definition generate_classifier :: "env \<Rightarrow> OpenAILMM \<Rightarrow> string \<Rightarrow> closure outcome" where
  "generate_classifier E self question = select_tool E self CLIP question"

definition generate_detector :: "env \<Rightarrow> OpenAILMM \<Rightarrow> string \<Rightarrow> closure outcome" where
  "generate_detector E self question = select_tool E self GroundingDINO question"

definition generate_segmentor :: "env \<Rightarrow> OpenAILMM \<Rightarrow> string \<Rightarrow> closure outcome" where
  "generate_segmentor E self question = select_tool E self GroundingSAM question"

section \<open>The client factory\<close>

datatype lmm = OpenAI OpenAILMM | LLaVA LLaVALMM

definition get_lmm :: "string \<Rightarrow> exn + lmm" where
  "get_lmm name =
     (if name = ''openai'' then Inr (OpenAI (OpenAILMM_init (Some name) None []))
      else if name = ''llava'' then Inr (LLaVA (LLaVALMM_init name))
      else Inl (ValueError (Msg (''Unknown LMM: '' @ name @ '', current support openai, llava''))))"

section \<open>Notions the results are stated with\<close>

text \<open>The factory that selects the parameters of a tool.\<close>

fun factory_of :: "tool \<Rightarrow> env \<Rightarrow> OpenAILMM \<Rightarrow> string \<Rightarrow> closure outcome" where
  "factory_of CLIP = generate_classifier"
| "factory_of GroundingDINO = generate_detector"
| "factory_of GroundingSAM = generate_segmentor"

text \<open>
  A chat message of the data model carries a role and a content. \<open>text_only c m\<close> says that
  the wire message \<open>m\<close> is the message \<open>c\<close> with its content as the one text block, and
  \<open>text_and_image c b m\<close> that it is \<open>c\<close> with that text block followed by the block \<open>b\<close>.
\<close>

definition has_role_and_content :: "(string \<times> string) list \<Rightarrow> bool" where
  "has_role_and_content c = (map_of c ''role'' \<noteq> None \<and> map_of c ''content'' \<noteq> None)"

definition text_only :: "(string \<times> string) list \<Rightarrow> fixed_message \<Rightarrow> bool" where
  "text_only c m =
     (map_of c ''role'' = Some (role m)
      \<and> (case map_of c ''content'' of
            None \<Rightarrow> False
          | Some t \<Rightarrow> content m = Blocks [TextBlock t]))"

definition text_and_image :: "(string \<times> string) list \<Rightarrow> block \<Rightarrow> fixed_message \<Rightarrow> bool" where
  "text_and_image c b m =
     (map_of c ''role'' = Some (role m)
      \<and> (case map_of c ''content'' of
            None \<Rightarrow> False
          | Some t \<Rightarrow> content m = Blocks [TextBlock t, b]))"

section \<open>A sample environment\<close>

text \<open>
  One concrete environment, on which the theorems below are instantiated. Three image
  files exist (\<^verbatim>\<open>photo.JPG\<close>, \<^verbatim>\<open>img.png\<close>, \<^verbatim>\<open>chart.gif\<close>), each holding the two bytes
  \<^verbatim>\<open>hi\<close>, whose base64 encoding is \<^verbatim>\<open>aGk=\<close>; no other path can be opened, in particular
  not \<^verbatim>\<open>missing.png\<close>. The library functions are given by their values on the arguments
  that occur. The completion service answers every request with the one choice \<open>reply\<close>,
  and the hosted endpoint with \<open>resp\<close>.
\<close>

definition sample_files :: "(string \<times> string) list" where
  "sample_files = [(''photo.JPG'', ''hi''), (''img.png'', ''hi''), (''chart.gif'', ''hi'')]"

definition sample_suffixes :: "(string \<times> string) list" where
  "sample_suffixes =
     [(''photo.JPG'', ''.JPG''), (''img.png'', ''.png''), (''chart.gif'', ''.gif''),
      (''missing.png'', ''.png'')]"

definition sample_decoded :: "(string \<times> json) list" where
  \<open>sample_decoded =
     [(''{"Parameters": {"prompt": "cat"}}'',
         JObj [(''Parameters'', JObj [(''prompt'', JStr ''cat'')])]),
      (''{"prompt": "cat"}'', JObj [(''prompt'', JStr ''cat'')])]\<close>

definition sample_env :: "string \<Rightarrow> dict \<Rightarrow> env" where
  "sample_env reply resp =
     \<lparr>open_read = map_of sample_files,
      b64encode = (\<lambda>bytes. if bytes = ''hi'' then ''aGk='' else []),
      path_suffix = (\<lambda>p. case map_of sample_suffixes p of None \<Rightarrow> [] | Some e \<Rightarrow> e),
      str_lower = (\<lambda>s. if s = ''.JPG'' then ''.jpg'' else s),
      json_loads = map_of sample_decoded,
      requests_post = (\<lambda>req. Inr resp),
      chat_completions_create = (\<lambda>req. Inr [reply]),
      CHOOSE_PARAMS_format = (\<lambda>api_doc question. api_doc @ question),
      SYSTEM_PROMPT = ''You are a helpful assistant.'',
      description = (\<lambda>t. ''tool''),
      usage_str = (\<lambda>t. ''usage'')\<rparr>"

definition sample_client :: OpenAILMM where
  "sample_client = OpenAILMM_init None None []"

definition ok_response :: dict where
  "ok_response = [(''statusCode'', JInt 200), (''data'', JStr ''X'')]"

definition sample_post :: "string \<Rightarrow> post_request" where
  "sample_post prompt =
     \<lparr>post_url = LLAVA_ENDPOINT,
      headers = [(''Content-Type'', ''application/json'')],
      json_body = [(''prompt'', JStr prompt), (''temperature'', JFloat default_temperature),
                   (''max_new_tokens'', JInt default_max_new_tokens)]\<rparr>"

definition sample_chat :: "(string \<times> string) list list" where
  "sample_chat =
     [[(''role'', ''user''), (''content'', ''What is this?'')],
      [(''role'', ''assistant''), (''content'', ''A cat.'')]]"

section \<open>The client factory: results\<close>

text \<open>
  C6. The client factory maps \<^verbatim>\<open>"openai"\<close> to an instance of the third-party vision-chat
  client and \<^verbatim>\<open>"llava"\<close> to an instance of the hosted-endpoint client; these are the two
  variants of \<open>lmm\<close>, and each has its \<open>generate\<close>, \<open>chat\<close> and unified call defined above.
  Every other name raises the \<open>ValueError\<close> whose message is
  \<^verbatim>\<open>Unknown LMM: {name}, current support openai, llava\<close>, which names the supported set.
\<close>

theorem get_lmm_backends:
  "(\<exists>c. get_lmm ''openai'' = Inr (OpenAI c))
   \<and> (\<exists>c. get_lmm ''llava'' = Inr (LLaVA c))
   \<and> (name \<noteq> ''openai'' \<and> name \<noteq> ''llava'' \<longrightarrow>
        get_lmm name
          = Inl (ValueError (Msg (''Unknown LMM: '' @ name @ '', current support openai, llava''))))"
  by (simp add: get_lmm_def)

theorem get_lmm_backends_witness:
  "''gemini'' \<noteq> ''openai'' \<and> ''gemini'' \<noteq> ''llava''
   \<and> get_lmm ''gemini''
       = Inl (ValueError (Msg ''Unknown LMM: gemini, current support openai, llava''))"
  using get_lmm_backends [of "''gemini''"] by simp

text \<open>
  C9. The factory passes the backend name on as the model name: the client it builds for
  \<^verbatim>\<open>"openai"\<close> has the model name \<^verbatim>\<open>openai\<close>, which is not the default
  \<^verbatim>\<open>gpt-4-vision-preview\<close>. The constructor uses the default exactly when no model name is
  passed to it; a name that is passed is kept.
\<close>

theorem get_lmm_openai_model_name:
  "(\<exists>c. get_lmm ''openai'' = Inr (OpenAI c) \<and> model_name c = ''openai''
        \<and> model_name c \<noteq> ''gpt-4-vision-preview'')
   \<and> model_name (OpenAILMM_init None tokens kw) = ''gpt-4-vision-preview''
   \<and> model_name (OpenAILMM_init (Some n) tokens kw) = n"
  by (simp add: get_lmm_def OpenAILMM_init_def)

section \<open>The unified call: results\<close>

text \<open>
  C7. For both clients and every image argument, the unified call on a string is
  \<open>generate\<close> on that string and image (for the hosted-endpoint client with the default
  temperature and token count, as the call passes neither), and the unified call on a list
  of messages is \<open>chat\<close> on that list and image: the same effects and the same value or
  exception.
\<close>

theorem call_dispatch:
  "OpenAILMM_call E self (InStr s) img = OpenAILMM_generate E self s img
   \<and> OpenAILMM_call E self (InChat c) img = OpenAILMM_chat E self c img
   \<and> LLaVALMM_call E self' (InStr s) img
       = LLaVALMM_generate E self' s img default_temperature default_max_new_tokens
   \<and> LLaVALMM_call E self' (InChat c) img = LLaVALMM_chat self' c img"
  by (simp add: OpenAILMM_call_def LLaVALMM_call_def)

section \<open>The hosted-endpoint client: results\<close>

lemma sample_request:
  "llava_request (sample_env reply resp) prompt None default_temperature default_max_new_tokens
     = Inr (sample_post prompt)"
  by (simp add: llava_request_def llava_data_def sample_post_def)

lemma sample_requests_post: "requests_post (sample_env reply resp) req = Inr resp"
  by (simp add: sample_env_def)

text \<open>
  C2, as the code has it. Let \<open>generate\<close> have posted the request \<open>req\<close> and received the
  JSON object \<open>resp\<close>. If \<open>resp\<close> has no \<^verbatim>\<open>statusCode\<close>, or one that is not equal to 200, the
  call logs \<^verbatim>\<open>Request failed: {resp}\<close> and then raises the \<open>ValueError\<close> with the same text,
  which carries the response. Otherwise it returns the value of the \<^verbatim>\<open>data\<close> field when the
  response has one, and raises \<^verbatim>\<open>KeyError('data')\<close>, logging nothing, when it has none.
\<close>

theorem llava_generate_status:
  assumes "llava_request E prompt img temperature max_new_tokens = Inr req"
    and "requests_post E req = Inr resp"
  shows
    "((map_of resp ''statusCode'' = None
        \<or> (\<exists>v. map_of resp ''statusCode'' = Some v \<and> \<not> py_eq_int v 200)) \<longrightarrow>
       LLaVALMM_generate E self prompt img temperature max_new_tokens
         = ([HttpPost req, LogError (MsgRepr ''Request failed: '' resp)],
            Inl (ValueError (MsgRepr ''Request failed: '' resp))))
     \<and> ((\<exists>v. map_of resp ''statusCode'' = Some v \<and> py_eq_int v 200) \<longrightarrow>
          (map_of resp ''data'' = Some d \<longrightarrow>
             LLaVALMM_generate E self prompt img temperature max_new_tokens
               = ([HttpPost req], Inr d))
          \<and> (map_of resp ''data'' = None \<longrightarrow>
             LLaVALMM_generate E self prompt img temperature max_new_tokens
               = ([HttpPost req], Inl (KeyError ''data''))))"
  using assms by (auto simp: LLaVALMM_generate_def request_failed_def)

text \<open>The response \<^verbatim>\<open>{"statusCode": 200, "data": "X"}\<close> gives \<^verbatim>\<open>"X"\<close>; the responses
  \<^verbatim>\<open>{"statusCode": 500}\<close> and \<^verbatim>\<open>{"message": "Forbidden"}\<close> are logged and raised.\<close>

theorem llava_generate_status_witness:
  "LLaVALMM_generate (sample_env [] ok_response) (LLaVALMM_init ''llava'') ''hello'' None
      default_temperature default_max_new_tokens
     = ([HttpPost (sample_post ''hello'')], Inr (JStr ''X''))
   \<and> LLaVALMM_generate (sample_env [] [(''statusCode'', JInt 500)]) (LLaVALMM_init ''llava'')
      ''hello'' None default_temperature default_max_new_tokens
     = ([HttpPost (sample_post ''hello''),
         LogError (MsgRepr ''Request failed: '' [(''statusCode'', JInt 500)])],
        Inl (ValueError (MsgRepr ''Request failed: '' [(''statusCode'', JInt 500)])))
   \<and> LLaVALMM_generate (sample_env [] [(''message'', JStr ''Forbidden'')])
      (LLaVALMM_init ''llava'') ''hello'' None default_temperature default_max_new_tokens
     = ([HttpPost (sample_post ''hello''),
         LogError (MsgRepr ''Request failed: '' [(''message'', JStr ''Forbidden'')])],
        Inl (ValueError (MsgRepr ''Request failed: '' [(''message'', JStr ''Forbidden'')])))"
  using
    llava_generate_status [where E = "sample_env [] ok_response" and resp = ok_response
      and d = "JStr ''X''" and self = "LLaVALMM_init ''llava''",
      OF sample_request sample_requests_post, of "''hello''"]
    llava_generate_status [where E = "sample_env [] [(''statusCode'', JInt 500)]"
      and resp = "[(''statusCode'', JInt 500)]" and self = "LLaVALMM_init ''llava''",
      OF sample_request sample_requests_post, of "''hello''"]
    llava_generate_status [where E = "sample_env [] [(''message'', JStr ''Forbidden'')]"
      and resp = "[(''message'', JStr ''Forbidden'')]" and self = "LLaVALMM_init ''llava''",
      OF sample_request sample_requests_post, of "''hello''"]
  by (simp add: ok_response_def)

text \<open>The response \<^verbatim>\<open>{"statusCode": 200}\<close> has the status 200 and no \<^verbatim>\<open>data\<close>: the call
  returns nothing, \<^verbatim>\<open>resp_json["data"]\<close> raises.\<close>

theorem llava_generate_no_data:
  "map_of [(''statusCode'', JInt 200)] ''statusCode'' = Some (JInt 200)
   \<and> py_eq_int (JInt 200) 200
   \<and> LLaVALMM_generate (sample_env [] [(''statusCode'', JInt 200)]) (LLaVALMM_init ''llava'')
        ''hello'' None default_temperature default_max_new_tokens
       = ([HttpPost (sample_post ''hello'')], Inl (KeyError ''data''))"
  by (simp add: LLaVALMM_generate_def sample_request sample_requests_post request_failed_def)

section \<open>The third-party client's chat: results\<close>

subsection \<open>The loop over the messages\<close>

lemma fix_loop_sound:
  "fix_loop acc chat = Inr fixed \<Longrightarrow> \<exists>new. fixed = acc @ new \<and> list_all2 text_only chat new"
proof (induction chat arbitrary: acc)
  case Nil
  then show ?case by simp
next
  case (Cons c cs)
  from Cons.prems obtain r t where r: "map_of c ''role'' = Some r"
    and t: "map_of c ''content'' = Some t"
    and rest: "fix_loop (acc @ [\<lparr>role = r, content = Blocks [TextBlock t]\<rparr>]) cs = Inr fixed"
    by (auto split: option.splits)
  from Cons.IH [OF rest] obtain new where
    new: "fixed = (acc @ [\<lparr>role = r, content = Blocks [TextBlock t]\<rparr>]) @ new"
    and all: "list_all2 text_only cs new"
    by blast
  have "text_only c \<lparr>role = r, content = Blocks [TextBlock t]\<rparr>"
    by (simp add: text_only_def r t)
  with new all show ?case by simp
qed

lemma fix_loop_total:
  "list_all has_role_and_content chat \<Longrightarrow> \<exists>fixed. fix_loop acc chat = Inr fixed"
  by (induction chat arbitrary: acc) (auto simp: has_role_and_content_def)

lemma text_only_append:
  "text_only c m \<Longrightarrow> \<exists>m'. append_to_first (m # ms) b = Inr (m' # ms) \<and> text_and_image c b m'"
  by (auto simp: text_only_def text_and_image_def split: option.splits)

lemma create_and_return_events:
  "fst (create_and_return E self msgs)
     = [ChatCompletion \<lparr>model = model_name self, messages = msgs,
                        max_tokens_arg = Some (max_tokens self), extra = kwargs self\<rparr>]"
  by (simp add: create_and_return_def Let_def split: sum.splits)

lemma create_and_return_error:
  "snd (create_and_return E self msgs) = Inl e \<Longrightarrow> (\<exists>x. e = TransportError x) \<or> e = IndexError"
  by (auto simp: create_and_return_def Let_def split: sum.splits elim: first_choice.elims)

lemma chat_with_image:
  assumes img: "if_image img = Some im"
    and tag: "chat_extension E (path_suffix E (path_of im)) = Inr tag"
    and enc: "encode_image E im = Inr enc"
    and wf: "list_all has_role_and_content (c # cs)"
  shows "\<exists>m ms. OpenAILMM_chat E self (c # cs) img = create_and_return E self (m # ms)
           \<and> text_and_image c (image_url_block tag enc) m \<and> list_all2 text_only cs ms"
proof -
  from fix_loop_total [OF wf] obtain fixed where fixed: "fix_loop [] (c # cs) = Inr fixed"
    by blast
  from fix_loop_sound [OF fixed] obtain m ms where ms: "fixed = m # ms"
    and c: "text_only c m" and cs: "list_all2 text_only cs ms"
    by (auto simp: list_all2_Cons1)
  from text_only_append [OF c, of ms "image_url_block tag enc"] obtain m' where
    app: "append_to_first (m # ms) (image_url_block tag enc) = Inr (m' # ms)"
    and m': "text_and_image c (image_url_block tag enc) m'"
    by blast
  have "OpenAILMM_chat E self (c # cs) img = create_and_return E self (m' # ms)"
    unfolding OpenAILMM_chat_def by (simp only: fixed img tag enc ms app sum.case option.case)
  with m' cs show ?thesis by blast
qed

lemma encode_image_error: "encode_image E im = Inl e \<Longrightarrow> e = OSError (path_of im)"
  by (auto simp: encode_image_def split: option.splits)

subsection \<open>The sample conversation\<close>

lemma sample_chat_well_formed: "list_all has_role_and_content sample_chat"
  by (simp add: sample_chat_def has_role_and_content_def)

lemma sample_fix_loop:
  "fix_loop [] sample_chat
     = Inr [\<lparr>role = ''user'', content = Blocks [TextBlock ''What is this?'']\<rparr>,
            \<lparr>role = ''assistant'', content = Blocks [TextBlock ''A cat.'']\<rparr>]"
  by (simp add: sample_chat_def)

lemma sample_suffix:
  "path_suffix (sample_env reply resp) ''photo.JPG'' = ''.JPG''"
  "path_suffix (sample_env reply resp) ''img.png'' = ''.png''"
  "path_suffix (sample_env reply resp) ''chart.gif'' = ''.gif''"
  "path_suffix (sample_env reply resp) ''missing.png'' = ''.png''"
  by (simp_all add: sample_env_def sample_suffixes_def)

lemma sample_lower:
  "str_lower (sample_env reply resp) ''.JPG'' = ''.jpg''"
  "str_lower (sample_env reply resp) ''.png'' = ''.png''"
  "str_lower (sample_env reply resp) ''.gif'' = ''.gif''"
  by (simp_all add: sample_env_def)

lemma sample_encode:
  "encode_image (sample_env reply resp) (StrPath ''photo.JPG'') = Inr ''aGk=''"
  "encode_image (sample_env reply resp) (StrPath ''img.png'') = Inr ''aGk=''"
  "encode_image (sample_env reply resp) (StrPath ''chart.gif'') = Inr ''aGk=''"
  "encode_image (sample_env reply resp) (StrPath ''missing.png'') = Inl (OSError ''missing.png'')"
  by (simp_all add: encode_image_def sample_env_def sample_files_def)

lemma sample_create:
  "create_and_return (sample_env reply resp) sample_client msgs
     = ([ChatCompletion \<lparr>model = ''gpt-4-vision-preview'', messages = msgs,
                          max_tokens_arg = Some 1024, extra = []\<rparr>], Inr reply)"
  by (simp add: create_and_return_def sample_env_def sample_client_def OpenAILMM_init_def)

subsection \<open>Where the image goes\<close>

text \<open>
  C8. Let every message given to \<open>chat\<close> have a role and a content. When no image is given
  (\<^verbatim>\<open>if image:\<close> is false), \<open>chat\<close> makes the one completion call, and the messages it sends
  are the messages of the list, the first included, each with its role and exactly its one
  text block. When an image with a supported extension is given together with a non-empty
  list, then, once the file is encoded, \<open>chat\<close> makes the one completion call, the first
  message is sent with its text block followed by the one \<^verbatim>\<open>image_url\<close> block (the data URI
  of the encoded image, detail \<^verbatim>\<open>low\<close>), and every other message is sent with exactly its
  one text block. In both cases the result of \<open>chat\<close> is the result of that call.
\<close>

theorem chat_image_first_only:
  assumes wf: "list_all has_role_and_content chat"
  shows
    "(if_image img = None \<longrightarrow>
        (\<exists>ms. list_all2 text_only chat ms
           \<and> fst (OpenAILMM_chat E self chat img)
               = [ChatCompletion \<lparr>model = model_name self, messages = ms,
                                   max_tokens_arg = Some (max_tokens self), extra = kwargs self\<rparr>]
           \<and> OpenAILMM_chat E self chat img = create_and_return E self ms))
     \<and> (if_image img = Some im \<longrightarrow> chat = c # cs \<longrightarrow>
        chat_extension E (path_suffix E (path_of im)) = Inr tag \<longrightarrow>
        encode_image E im = Inr enc \<longrightarrow>
        (\<exists>m ms. text_and_image c (image_url_block tag enc) m \<and> list_all2 text_only cs ms
           \<and> fst (OpenAILMM_chat E self chat img)
               = [ChatCompletion \<lparr>model = model_name self, messages = m # ms,
                                   max_tokens_arg = Some (max_tokens self), extra = kwargs self\<rparr>]
           \<and> OpenAILMM_chat E self chat img = create_and_return E self (m # ms)))"
proof (intro conjI impI)
  assume none: "if_image img = None"
  from fix_loop_total [OF wf] obtain fixed where fixed: "fix_loop [] chat = Inr fixed"
    by blast
  from fix_loop_sound [OF fixed] have all: "list_all2 text_only chat fixed"
    by simp
  from fixed none have run: "OpenAILMM_chat E self chat img = create_and_return E self fixed"
    by (simp add: OpenAILMM_chat_def)
  with all show "\<exists>ms. list_all2 text_only chat ms
           \<and> fst (OpenAILMM_chat E self chat img)
               = [ChatCompletion \<lparr>model = model_name self, messages = ms,
                                   max_tokens_arg = Some (max_tokens self), extra = kwargs self\<rparr>]
           \<and> OpenAILMM_chat E self chat img = create_and_return E self ms"
    by (auto simp: create_and_return_events)
next
  assume img: "if_image img = Some im" and chat: "chat = c # cs"
    and tag: "chat_extension E (path_suffix E (path_of im)) = Inr tag"
    and enc: "encode_image E im = Inr enc"
  from wf chat have "list_all has_role_and_content (c # cs)"
    by simp
  from chat_with_image [OF img tag enc this, of self] chat
  show "\<exists>m ms. text_and_image c (image_url_block tag enc) m \<and> list_all2 text_only cs ms
           \<and> fst (OpenAILMM_chat E self chat img)
               = [ChatCompletion \<lparr>model = model_name self, messages = m # ms,
                                   max_tokens_arg = Some (max_tokens self), extra = kwargs self\<rparr>]
           \<and> OpenAILMM_chat E self chat img = create_and_return E self (m # ms)"
    by (auto simp: create_and_return_events)
qed

text \<open>The sample conversation with \<^verbatim>\<open>photo.JPG\<close> and with no image.\<close>

theorem chat_image_first_only_witness:
  "(\<exists>m ms. text_and_image [(''role'', ''user''), (''content'', ''What is this?'')]
              (ImageUrlBlock ''data:image/jpg;base64,aGk='' ''low'') m
          \<and> list_all2 text_only [[(''role'', ''assistant''), (''content'', ''A cat.'')]] ms
          \<and> fst (OpenAILMM_chat (sample_env ''A tabby.'' []) sample_client sample_chat
                    (Some (StrPath ''photo.JPG'')))
              = [ChatCompletion \<lparr>model = ''gpt-4-vision-preview'', messages = m # ms,
                                  max_tokens_arg = Some 1024, extra = []\<rparr>]
          \<and> OpenAILMM_chat (sample_env ''A tabby.'' []) sample_client sample_chat
                (Some (StrPath ''photo.JPG''))
              = ([ChatCompletion \<lparr>model = ''gpt-4-vision-preview'', messages = m # ms,
                                   max_tokens_arg = Some 1024, extra = []\<rparr>], Inr ''A tabby.''))
   \<and> (\<exists>ms. list_all2 text_only sample_chat ms
          \<and> fst (OpenAILMM_chat (sample_env ''A tabby.'' []) sample_client sample_chat None)
              = [ChatCompletion \<lparr>model = ''gpt-4-vision-preview'', messages = ms,
                                  max_tokens_arg = Some 1024, extra = []\<rparr>]
          \<and> OpenAILMM_chat (sample_env ''A tabby.'' []) sample_client sample_chat None
              = ([ChatCompletion \<lparr>model = ''gpt-4-vision-preview'', messages = ms,
                                   max_tokens_arg = Some 1024, extra = []\<rparr>], Inr ''A tabby.''))"
proof -
  have photo: "if_image (Some (StrPath ''photo.JPG'')) = Some (StrPath ''photo.JPG'')"
    and none: "if_image None = None"
    by simp_all
  have chat: "sample_chat = [(''role'', ''user''), (''content'', ''What is this?'')]
      # [[(''role'', ''assistant''), (''content'', ''A cat.'')]]"
    by (simp add: sample_chat_def)
  have tag: "chat_extension (sample_env ''A tabby.'' [])
      (path_suffix (sample_env ''A tabby.'' []) (path_of (StrPath ''photo.JPG''))) = Inr ''jpg''"
    by (simp add: chat_extension_def sample_suffix sample_lower)
  have client: "model_name sample_client = ''gpt-4-vision-preview''"
    "max_tokens sample_client = 1024" "kwargs sample_client = []"
    by (simp_all add: sample_client_def OpenAILMM_init_def)
  from chat_image_first_only [OF sample_chat_well_formed, where E = "sample_env ''A tabby.'' []"
      and self = sample_client and img = "Some (StrPath ''photo.JPG'')"
      and im = "StrPath ''photo.JPG''" and tag = "''jpg''" and enc = "''aGk=''"
      and c = "[(''role'', ''user''), (''content'', ''What is this?'')]"
      and cs = "[[(''role'', ''assistant''), (''content'', ''A cat.'')]]"]
    photo chat tag
  have first: "\<exists>m ms. text_and_image [(''role'', ''user''), (''content'', ''What is this?'')]
              (ImageUrlBlock ''data:image/jpg;base64,aGk='' ''low'') m
          \<and> list_all2 text_only [[(''role'', ''assistant''), (''content'', ''A cat.'')]] ms
          \<and> fst (OpenAILMM_chat (sample_env ''A tabby.'' []) sample_client sample_chat
                    (Some (StrPath ''photo.JPG'')))
              = [ChatCompletion \<lparr>model = ''gpt-4-vision-preview'', messages = m # ms,
                                  max_tokens_arg = Some 1024, extra = []\<rparr>]
          \<and> OpenAILMM_chat (sample_env ''A tabby.'' []) sample_client sample_chat
                (Some (StrPath ''photo.JPG''))
              = ([ChatCompletion \<lparr>model = ''gpt-4-vision-preview'', messages = m # ms,
                                   max_tokens_arg = Some 1024, extra = []\<rparr>], Inr ''A tabby.'')"
    by (simp add: sample_encode image_url_block_def client sample_create)
  from chat_image_first_only [OF sample_chat_well_formed, where E = "sample_env ''A tabby.'' []"
      and self = sample_client and img = None]
    none
  have second: "\<exists>ms. list_all2 text_only sample_chat ms
          \<and> fst (OpenAILMM_chat (sample_env ''A tabby.'' []) sample_client sample_chat None)
              = [ChatCompletion \<lparr>model = ''gpt-4-vision-preview'', messages = ms,
                                  max_tokens_arg = Some 1024, extra = []\<rparr>]
          \<and> OpenAILMM_chat (sample_env ''A tabby.'' []) sample_client sample_chat None
              = ([ChatCompletion \<lparr>model = ''gpt-4-vision-preview'', messages = ms,
                                   max_tokens_arg = Some 1024, extra = []\<rparr>], Inr ''A tabby.'')"
    by (simp add: client sample_create)
  from first second show ?thesis
    by (rule conjI)
qed

subsection \<open>The media tag\<close>

text \<open>
  C3. Let an image be given to \<open>chat\<close> (\<^verbatim>\<open>if image:\<close> is true). If the lower-cased suffix of
  the path is \<^verbatim>\<open>.jpg\<close> or \<^verbatim>\<open>.jpeg\<close>, the data URI appended to the first message is
  \<^verbatim>\<open>data:image/jpg;base64,...\<close>; if it is \<^verbatim>\<open>.png\<close>, the URI is
  \<^verbatim>\<open>data:image/png;base64,...\<close> (for messages that each have a role and a content, once
  the file is encoded). For every other suffix \<open>chat\<close> raises and has performed no effect,
  so no network call; for messages that each have a role and a content, what it raises is
  the \<open>ValueError\<close> \<^verbatim>\<open>Unsupported image extension: {suffix}\<close>.
\<close>

theorem chat_media_tag:
  assumes img: "if_image img = Some im"
  shows
    "(str_lower E (path_suffix E (path_of im)) = ''.jpg''
        \<or> str_lower E (path_suffix E (path_of im)) = ''.jpeg'' \<longrightarrow>
      list_all has_role_and_content (c # cs) \<longrightarrow> encode_image E im = Inr enc \<longrightarrow>
      (\<exists>m ms. OpenAILMM_chat E self (c # cs) img = create_and_return E self (m # ms)
         \<and> text_and_image c (ImageUrlBlock (''data:image/jpg;base64,'' @ enc) ''low'') m))
     \<and> (str_lower E (path_suffix E (path_of im)) = ''.png'' \<longrightarrow>
      list_all has_role_and_content (c # cs) \<longrightarrow> encode_image E im = Inr enc \<longrightarrow>
      (\<exists>m ms. OpenAILMM_chat E self (c # cs) img = create_and_return E self (m # ms)
         \<and> text_and_image c (ImageUrlBlock (''data:image/png;base64,'' @ enc) ''low'') m))
     \<and> (str_lower E (path_suffix E (path_of im)) \<noteq> ''.jpg''
        \<and> str_lower E (path_suffix E (path_of im)) \<noteq> ''.jpeg''
        \<and> str_lower E (path_suffix E (path_of im)) \<noteq> ''.png'' \<longrightarrow>
      fst (OpenAILMM_chat E self chat img) = []
      \<and> (\<exists>e. snd (OpenAILMM_chat E self chat img) = Inl e)
      \<and> (list_all has_role_and_content chat \<longrightarrow>
          OpenAILMM_chat E self chat img
            = ([], Inl (ValueError (Msg (''Unsupported image extension: ''
                                           @ path_suffix E (path_of im)))))))"
proof (intro conjI impI)
  assume "str_lower E (path_suffix E (path_of im)) = ''.jpg''
        \<or> str_lower E (path_suffix E (path_of im)) = ''.jpeg''"
    and wf: "list_all has_role_and_content (c # cs)" and enc: "encode_image E im = Inr enc"
  then have tag: "chat_extension E (path_suffix E (path_of im)) = Inr ''jpg''"
    by (auto simp: chat_extension_def)
  from chat_with_image [OF img tag enc wf]
  show "\<exists>m ms. OpenAILMM_chat E self (c # cs) img = create_and_return E self (m # ms)
         \<and> text_and_image c (ImageUrlBlock (''data:image/jpg;base64,'' @ enc) ''low'') m"
    by (simp add: image_url_block_def) blast
next
  assume "str_lower E (path_suffix E (path_of im)) = ''.png''"
    and wf: "list_all has_role_and_content (c # cs)" and enc: "encode_image E im = Inr enc"
  then have tag: "chat_extension E (path_suffix E (path_of im)) = Inr ''png''"
    by (auto simp: chat_extension_def)
  from chat_with_image [OF img tag enc wf]
  show "\<exists>m ms. OpenAILMM_chat E self (c # cs) img = create_and_return E self (m # ms)
         \<and> text_and_image c (ImageUrlBlock (''data:image/png;base64,'' @ enc) ''low'') m"
    by (simp add: image_url_block_def) blast
next
  assume other: "str_lower E (path_suffix E (path_of im)) \<noteq> ''.jpg''
        \<and> str_lower E (path_suffix E (path_of im)) \<noteq> ''.jpeg''
        \<and> str_lower E (path_suffix E (path_of im)) \<noteq> ''.png''"
  then have unsupported: "chat_extension E (path_suffix E (path_of im))
      = Inl (ValueError (Msg (''Unsupported image extension: '' @ path_suffix E (path_of im))))"
    by (simp add: chat_extension_def)
  with img show "fst (OpenAILMM_chat E self chat img) = []"
    by (simp add: OpenAILMM_chat_def split: sum.splits)
  from unsupported img show "\<exists>e. snd (OpenAILMM_chat E self chat img) = Inl e"
    by (simp add: OpenAILMM_chat_def split: sum.splits)
  assume wf: "list_all has_role_and_content chat"
  from fix_loop_total [OF wf] obtain fixed where fixed: "fix_loop [] chat = Inr fixed"
    by blast
  with unsupported img show "OpenAILMM_chat E self chat img
        = ([], Inl (ValueError (Msg (''Unsupported image extension: ''
                                       @ path_suffix E (path_of im)))))"
    by (simp add: OpenAILMM_chat_def)
qed

theorem chat_media_tag_witness:
  "str_lower (sample_env ''A tabby.'' [])
       (path_suffix (sample_env ''A tabby.'' []) (path_of (StrPath ''photo.JPG''))) = ''.jpg''
   \<and> (\<exists>m ms. OpenAILMM_chat (sample_env ''A tabby.'' []) sample_client sample_chat
                  (Some (StrPath ''photo.JPG''))
                = create_and_return (sample_env ''A tabby.'' []) sample_client (m # ms)
          \<and> text_and_image [(''role'', ''user''), (''content'', ''What is this?'')]
               (ImageUrlBlock ''data:image/jpg;base64,aGk='' ''low'') m)
   \<and> (\<exists>m ms. OpenAILMM_chat (sample_env ''A tabby.'' []) sample_client sample_chat
                  (Some (StrPath ''img.png''))
                = create_and_return (sample_env ''A tabby.'' []) sample_client (m # ms)
          \<and> text_and_image [(''role'', ''user''), (''content'', ''What is this?'')]
               (ImageUrlBlock ''data:image/png;base64,aGk='' ''low'') m)
   \<and> OpenAILMM_chat (sample_env ''A tabby.'' []) sample_client sample_chat
         (Some (StrPath ''chart.gif''))
       = ([], Inl (ValueError (Msg ''Unsupported image extension: .gif'')))"
proof -
  have photo: "if_image (Some (StrPath ''photo.JPG'')) = Some (StrPath ''photo.JPG'')"
    and png: "if_image (Some (StrPath ''img.png'')) = Some (StrPath ''img.png'')"
    and chart: "if_image (Some (StrPath ''chart.gif'')) = Some (StrPath ''chart.gif'')"
    by simp_all
  have chat: "sample_chat = [(''role'', ''user''), (''content'', ''What is this?'')]
      # [[(''role'', ''assistant''), (''content'', ''A cat.'')]]"
    by (simp add: sample_chat_def)
  from chat_media_tag [OF photo, where E = "sample_env ''A tabby.'' []" and enc = "''aGk=''"
      and self = sample_client and c = "[(''role'', ''user''), (''content'', ''What is this?'')]"
      and cs = "[[(''role'', ''assistant''), (''content'', ''A cat.'')]]"]
    chat_media_tag [OF png, where E = "sample_env ''A tabby.'' []" and enc = "''aGk=''"
      and self = sample_client and c = "[(''role'', ''user''), (''content'', ''What is this?'')]"
      and cs = "[[(''role'', ''assistant''), (''content'', ''A cat.'')]]"]
    chat_media_tag [OF chart, where E = "sample_env ''A tabby.'' []" and self = sample_client
      and chat = sample_chat]
    sample_chat_well_formed
  show ?thesis
    unfolding chat by (simp add: sample_suffix sample_lower sample_encode)
qed

subsection \<open>The empty list\<close>

text \<open>
  C10, as the code has it. Let an image with a supported extension be given to \<open>chat\<close>.
  With the empty message list \<open>chat\<close> fails before any network call: with \<open>IndexError\<close>, from
  the unguarded \<^verbatim>\<open>fixed_chat[0]\<close>, when the image file can be read, and with the encoder's
  \<open>OSError\<close> when it cannot, because the file is read before \<^verbatim>\<open>fixed_chat[0]\<close> is accessed.
  So \<open>chat\<close> returns a value on this path only if the message list is non-empty.
\<close>

theorem chat_empty_with_image:
  assumes img: "if_image img = Some im"
    and supported: "str_lower E (path_suffix E (path_of im)) = ''.jpg''
        \<or> str_lower E (path_suffix E (path_of im)) = ''.jpeg''
        \<or> str_lower E (path_suffix E (path_of im)) = ''.png''"
  shows
    "(encode_image E im = Inr enc \<longrightarrow> OpenAILMM_chat E self [] img = ([], Inl IndexError))
     \<and> (encode_image E im = Inl e \<longrightarrow> OpenAILMM_chat E self [] img = ([], Inl e))
     \<and> (snd (OpenAILMM_chat E self chat img) = Inr answer \<longrightarrow> chat \<noteq> [])"
proof -
  from supported obtain tag where tag: "chat_extension E (path_suffix E (path_of im)) = Inr tag"
    by (auto simp: chat_extension_def)
  have empty: "\<exists>e. OpenAILMM_chat E self [] img = ([], Inl e)"
    by (cases "encode_image E im") (simp_all add: OpenAILMM_chat_def img tag)
  have "chat \<noteq> []" if "snd (OpenAILMM_chat E self chat img) = Inr answer"
    using that empty by auto
  then show ?thesis
    by (simp add: OpenAILMM_chat_def img tag)
qed

text \<open>The empty list with \<^verbatim>\<open>img.png\<close> and with \<^verbatim>\<open>missing.png\<close>, and the sample conversation,
  which is not empty, with \<^verbatim>\<open>img.png\<close>.\<close>

theorem chat_empty_with_image_witness:
  "OpenAILMM_chat (sample_env ''A tabby.'' []) sample_client [] (Some (StrPath ''img.png''))
     = ([], Inl IndexError)
   \<and> OpenAILMM_chat (sample_env ''A tabby.'' []) sample_client [] (Some (StrPath ''missing.png''))
     = ([], Inl (OSError ''missing.png''))
   \<and> snd (OpenAILMM_chat (sample_env ''A tabby.'' []) sample_client sample_chat
            (Some (StrPath ''img.png''))) = Inr ''A tabby.''
   \<and> sample_chat \<noteq> []"
proof -
  have img: "if_image (Some (StrPath ''img.png'')) = Some (StrPath ''img.png'')"
    and missing: "if_image (Some (StrPath ''missing.png'')) = Some (StrPath ''missing.png'')"
    by simp_all
  have supported:
    "str_lower (sample_env ''A tabby.'' [])
       (path_suffix (sample_env ''A tabby.'' []) (path_of (StrPath p))) = ''.jpg''
     \<or> str_lower (sample_env ''A tabby.'' [])
       (path_suffix (sample_env ''A tabby.'' []) (path_of (StrPath p))) = ''.jpeg''
     \<or> str_lower (sample_env ''A tabby.'' [])
       (path_suffix (sample_env ''A tabby.'' []) (path_of (StrPath p))) = ''.png''"
    if "p = ''img.png'' \<or> p = ''missing.png''" for p
    using that by (auto simp: sample_suffix sample_lower)
  have returns: "snd (OpenAILMM_chat (sample_env ''A tabby.'' []) sample_client sample_chat
            (Some (StrPath ''img.png''))) = Inr ''A tabby.''"
    by (simp add: OpenAILMM_chat_def sample_fix_loop sample_suffix sample_lower sample_encode
        sample_create chat_extension_def)
  from chat_empty_with_image [OF img supported, where enc = "''aGk=''" and self = sample_client
      and chat = sample_chat and answer = "''A tabby.''"]
    chat_empty_with_image [OF missing supported, where self = sample_client
      and e = "OSError ''missing.png''"]
    returns
  show ?thesis
    by (simp add: sample_encode)
qed

text \<open>The path \<^verbatim>\<open>missing.png\<close> has a supported extension and names no file: with the empty
  message list \<open>chat\<close> raises the \<open>OSError\<close> of \<^verbatim>\<open>open\<close>, not \<open>IndexError\<close>.\<close>

theorem chat_empty_missing_file:
  "if_image (Some (StrPath ''missing.png'')) = Some (StrPath ''missing.png'')
   \<and> str_lower (sample_env ''A tabby.'' [])
        (path_suffix (sample_env ''A tabby.'' []) ''missing.png'') = ''.png''
   \<and> OpenAILMM_chat (sample_env ''A tabby.'' []) sample_client [] (Some (StrPath ''missing.png''))
       = ([], Inl (OSError ''missing.png''))
   \<and> OSError ''missing.png'' \<noteq> IndexError"
  by (simp add: OpenAILMM_chat_def sample_suffix sample_lower sample_encode chat_extension_def)

section \<open>The third-party client's generate: results\<close>

text \<open>
  C4. Let an image be given to \<open>generate\<close> (\<^verbatim>\<open>if image:\<close> is true). Once the file is
  encoded, the request carries the one user message with the prompt's text block and the
  \<^verbatim>\<open>image_url\<close> block whose URI is \<^verbatim>\<open>data:image/{suffix};base64,{encoded}\<close> with the suffix
  of the path as \<^verbatim>\<open>Path(image).suffix\<close> returns it, leading dot included. Whatever the
  suffix, \<open>generate\<close> raises no \<open>ValueError\<close>, so never the one for an unsupported extension.
\<close>

theorem generate_raw_suffix:
  assumes img: "if_image img = Some im"
  shows
    "(encode_image E im = Inr enc \<longrightarrow>
        OpenAILMM_generate E self prompt img
          = create_and_return E self
              [\<lparr>role = ''user'',
                content = Blocks [TextBlock prompt,
                  ImageUrlBlock (''data:image/'' @ path_suffix E (path_of im)
                                   @ '';base64,'' @ enc) ''low'']\<rparr>])
     \<and> (\<forall>m. snd (OpenAILMM_generate E self prompt img) \<noteq> Inl (ValueError m))"
proof (intro conjI impI allI)
  assume "encode_image E im = Inr enc"
  with img show "OpenAILMM_generate E self prompt img
          = create_and_return E self
              [\<lparr>role = ''user'',
                content = Blocks [TextBlock prompt,
                  ImageUrlBlock (''data:image/'' @ path_suffix E (path_of im)
                                   @ '';base64,'' @ enc) ''low'']\<rparr>]"
    by (simp add: OpenAILMM_generate_def image_url_block_def)
next
  fix m
  show "snd (OpenAILMM_generate E self prompt img) \<noteq> Inl (ValueError m)"
  proof (cases "encode_image E im")
    case (Inl e)
    with encode_image_error [OF Inl] img show ?thesis
      by (simp add: OpenAILMM_generate_def)
  next
    case (Inr enc)
    with img show ?thesis
      using create_and_return_error [of E self _ "ValueError m"]
      by (auto simp: OpenAILMM_generate_def)
  qed
qed

theorem generate_raw_suffix_witness:
  "OpenAILMM_generate (sample_env ''A bar chart.'' []) sample_client ''Describe this.''
       (Some (StrPath ''chart.gif''))
     = ([ChatCompletion
           \<lparr>model = ''gpt-4-vision-preview'',
            messages = [\<lparr>role = ''user'',
                         content = Blocks [TextBlock ''Describe this.'',
                           ImageUrlBlock ''data:image/.gif;base64,aGk='' ''low'']\<rparr>],
            max_tokens_arg = Some 1024, extra = []\<rparr>],
        Inr ''A bar chart.'')"
proof -
  have img: "if_image (Some (StrPath ''chart.gif'')) = Some (StrPath ''chart.gif'')"
    by simp
  from generate_raw_suffix [OF img, of "sample_env ''A bar chart.'' []" "''aGk=''" sample_client
      "''Describe this.''"]
  show ?thesis
    by (simp add: sample_encode sample_suffix sample_create)
qed

section \<open>The tool-selector factories: results\<close>

lemma factory_of_select_tool: "factory_of t E self question = select_tool E self t question"
  by (cases t) (simp_all add: generate_classifier_def generate_detector_def generate_segmentor_def)

lemma sample_completion:
  "chat_completions_create (sample_env reply resp) req = Inr [reply]"
  by (simp add: sample_env_def)

lemma sample_json_loads:
  \<open>json_loads (sample_env reply resp) ''not json'' = None\<close>
  \<open>json_loads (sample_env reply resp) ''{"prompt": "cat"}'' = Some (JObj [(''prompt'', JStr ''cat'')])\<close>
  \<open>json_loads (sample_env reply resp) ''{"Parameters": {"prompt": "cat"}}''
     = Some (JObj [(''Parameters'', JObj [(''prompt'', JStr ''cat'')])])\<close>
  by (simp_all add: sample_env_def sample_decoded_def)

text \<open>
  C1, as the code has it. Let the completion call of a factory have returned \<open>answer\<close>. If
  \<open>answer\<close> is not valid JSON, the factory logs \<^verbatim>\<open>Failed to decode response: {answer}\<close> and then
  raises the \<open>ValueError\<close> \<^verbatim>\<open>Failed to decode response\<close>. If \<open>answer\<close> decodes to an object
  without the key \<^verbatim>\<open>Parameters\<close>, the factory raises \<^verbatim>\<open>KeyError('Parameters')\<close>, which the
  handler for \<^verbatim>\<open>json.JSONDecodeError\<close> does not catch, and logs nothing.
\<close>

theorem selector_parse_failure:
  assumes "chat_completions_create E (selector_request E self t question) = Inr (answer # others)"
  shows
    "(json_loads E answer = None \<longrightarrow>
        factory_of t E self question
          = ([ChatCompletion (selector_request E self t question),
              LogError (Msg (''Failed to decode response: '' @ answer))],
             Inl (ValueError (Msg ''Failed to decode response''))))
     \<and> (json_loads E answer = Some (JObj d) \<longrightarrow> map_of d ''Parameters'' = None \<longrightarrow>
        factory_of t E self question
          = ([ChatCompletion (selector_request E self t question)],
             Inl (KeyError ''Parameters'')))"
  using assms by (simp add: factory_of_select_tool select_tool_def)

theorem selector_parse_failure_witness:
  \<open>generate_classifier (sample_env ''not json'' []) sample_client ''Is there a cat?''
     = ([ChatCompletion
           (selector_request (sample_env ''not json'' []) sample_client CLIP ''Is there a cat?''),
         LogError (Msg ''Failed to decode response: not json'')],
        Inl (ValueError (Msg ''Failed to decode response'')))
   \<and> generate_detector (sample_env ''{"prompt": "cat"}'' []) sample_client ''Is there a cat?''
     = ([ChatCompletion
           (selector_request (sample_env ''{"prompt": "cat"}'' []) sample_client GroundingDINO
              ''Is there a cat?'')],
        Inl (KeyError ''Parameters''))\<close>
  using
    selector_parse_failure [where E = "sample_env ''not json'' []" and self = sample_client
      and t = CLIP and question = "''Is there a cat?''" and answer = "''not json''",
      OF sample_completion]
    selector_parse_failure [where E = \<open>sample_env ''{"prompt": "cat"}'' []\<close>
      and self = sample_client and t = GroundingDINO and question = "''Is there a cat?''"
      and answer = \<open>''{"prompt": "cat"}''\<close> and d = "[(''prompt'', JStr ''cat'')]",
      OF sample_completion]
  by (simp add: sample_json_loads)

text \<open>The answer \<^verbatim>\<open>{"prompt": "cat"}\<close> is valid JSON and an object without the key
  \<^verbatim>\<open>Parameters\<close>: the factory raises a \<open>KeyError\<close>, not the \<open>ValueError\<close>, and the only effect
  is the completion call; nothing is logged.\<close>

theorem selector_missing_parameters:
  \<open>json_loads (sample_env ''{"prompt": "cat"}'' []) ''{"prompt": "cat"}''
     = Some (JObj [(''prompt'', JStr ''cat'')])
   \<and> map_of [(''prompt'', JStr ''cat'')] ''Parameters'' = None
   \<and> generate_classifier (sample_env ''{"prompt": "cat"}'' []) sample_client ''Is there a cat?''
     = ([ChatCompletion
           (selector_request (sample_env ''{"prompt": "cat"}'' []) sample_client CLIP
              ''Is there a cat?'')],
        Inl (KeyError ''Parameters''))\<close>
  by (simp add: generate_classifier_def select_tool_def sample_completion sample_json_loads)

text \<open>
  C5. Let the completion call of a factory have returned a text that decodes to
  \<^verbatim>\<open>{"Parameters": {"prompt": "cat"}}\<close>. Then the factory returns a closure, and applying
  the closure to an image argument \<open>x\<close> calls the factory's tool (the classifier, the
  detector or the segmentor) with the keyword arguments \<^verbatim>\<open>prompt="cat"\<close> and \<^verbatim>\<open>image=x\<close>
  and no others.
\<close>

theorem selector_closure_call:
  assumes "chat_completions_create E (selector_request E self t question) = Inr (answer # others)"
    and "json_loads E answer = Some (JObj [(''Parameters'', JObj [(''prompt'', JStr ''cat'')])])"
  shows
    "\<exists>f. factory_of t E self question
            = ([ChatCompletion (selector_request E self t question)], Inr f)
         \<and> apply_closure f x
            = Inr \<lparr>callee = t,
                   kw_args = [(''prompt'', Parsed (JStr ''cat'')), (''image'', Given x)]\<rparr>"
  using assms by (simp add: factory_of_select_tool select_tool_def)

theorem selector_closure_call_witness:
  \<open>\<exists>f. generate_segmentor (sample_env ''{"Parameters": {"prompt": "cat"}}'' []) sample_client
           ''Where is the cat?''
          = ([ChatCompletion
                (selector_request (sample_env ''{"Parameters": {"prompt": "cat"}}'' [])
                   sample_client GroundingSAM ''Where is the cat?'')], Inr f)
       \<and> apply_closure f ''img.png''
          = Inr \<lparr>callee = GroundingSAM,
                 kw_args = [(''prompt'', Parsed (JStr ''cat'')), (''image'', Given ''img.png'')]\<rparr>\<close>
  using selector_closure_call [where E = \<open>sample_env ''{"Parameters": {"prompt": "cat"}}'' []\<close>
      and self = sample_client and t = GroundingSAM and question = "''Where is the cat?''"
      and answer = \<open>''{"Parameters": {"prompt": "cat"}}''\<close> and x = "''img.png''",
      OF sample_completion sample_json_loads(3)]
  by simp

end
